theory Spec2Isabelle
  imports Main "HOL-Library.Sublist"
begin

section \<open>Strings\<close>

text \<open>
  A Python \<open>str\<close> is modelled by its UTF-8 byte string. The operations used by
  \<open>main.py\<close> (concatenation, equality, the substring test \<open>in\<close>, \<open>str.replace\<close>)
  give the same answers on the UTF-8 bytes as on the code points, since UTF-8 is
  self-synchronising.
\<close>

text \<open>\<open>sub in s\<close>: some suffix of \<open>s\<close> starts with \<open>sub\<close>.\<close>

fun str_contains :: "string \<Rightarrow> string \<Rightarrow> bool" where
  "str_contains sub [] = (sub = [])"
| "str_contains sub (c # cs) = (prefix sub (c # cs) \<or> str_contains sub cs)"

text \<open>The decimal numeral that \<open>f"{page}"\<close> and \<open>"Heading %d" % level\<close> print.\<close>

function string_of_nat :: "nat \<Rightarrow> string" where
  "string_of_nat n =
     (if n < 10 then [''0123456789'' ! n]
      else string_of_nat (n div 10) @ [''0123456789'' ! (n mod 10)])"
  by pat_completeness auto
termination
  by (relation "measure id") auto

declare string_of_nat.simps [simp del]

text \<open>
  \<open>s.replace(old, new)\<close> for a non-empty \<open>old\<close>: the occurrences are replaced from the
  left, without overlap. (For an empty \<open>old\<close> Python interleaves \<open>new\<close>; the only call
  of \<open>main.py\<close> passes a non-empty literal, and the model returns \<open>s\<close> there.)
\<close>

function str_replace :: "string \<Rightarrow> string \<Rightarrow> string \<Rightarrow> string" where
  "str_replace old new [] = []"
| "str_replace old new (c # cs) =
     (if old \<noteq> [] \<and> prefix old (c # cs)
      then new @ str_replace old new (drop (length old) (c # cs))
      else c # str_replace old new cs)"
  by pat_completeness auto
termination
  by (relation "measure (\<lambda>(old, new, s). length s)") (auto simp: neq_Nil_conv)

section \<open>The document (python-docx)\<close>

text \<open>
  \<open>doc.paragraphs\<close> is the sequence of the paragraph elements of the document body, read
  afresh from the body at every access. A paragraph is modelled by its text and the
  name of its paragraph style (\<open>None\<close>: no style was assigned). The style table of the
  document is the list of the paragraph style names that a lookup by name resolves.
\<close>

record docx_paragraph =
  para_text :: string
  para_style :: "string option"

record document =
  paragraphs :: "docx_paragraph list"
  styles :: "string list"

datatype error =
    IndexError
  | KeyError string
  | ValueError string
  | Exception string
  | RequestException
  | PackageNotFoundError
  | CalledProcessError
  | OSError
  | TelegramError

text \<open>
  The text of a new paragraph goes through \<open>add_run\<close>. A tab, a line feed and a carriage
  return become child elements of the run, the other characters are stored as XML
  text, which lxml refuses with \<open>ValueError\<close> when it is not XML compatible: a control
  character below \<open>0x20\<close> other than tab, line feed and carriage return, one of the two
  code points U+FFFE and U+FFFF, or a surrogate (shown here on the UTF-8 bytes).
\<close>

definition xml_char_ch :: "char \<Rightarrow> bool" where
  "xml_char_ch c =
     (c = CHR 0x09 \<or> c = CHR 0x0A \<or> c = CHR 0x0D \<or> (32::nat) \<le> of_char c)"

fun xml_compatible :: "string \<Rightarrow> bool" where
  "xml_compatible [] = True"
| "xml_compatible (a # rest) =
     (if (128::nat) \<le> of_char a
      then (case rest of
              b # c # rest2 \<Rightarrow>
                (if a = CHR 0xEF \<and> b = CHR 0xBF \<and> (c = CHR 0xBE \<or> c = CHR 0xBF) then False
                 else if a = CHR 0xED \<and> (160::nat) \<le> of_char b \<and> of_char b \<le> (191::nat) then False
                 else xml_compatible rest)
            | _ \<Rightarrow> xml_compatible rest)
      else xml_char_ch a \<and> xml_compatible rest)"

text \<open>
  The text that \<open>paragraph.text\<close> reads back: a line break element reads as a line feed,
  so a carriage return comes back as a line feed; a tab comes back as a tab.
\<close>

definition docx_text :: "string \<Rightarrow> string" where
  "docx_text txt = map (\<lambda>c. if c = CHR 0x0D then CHR 0x0A else c) txt"

text \<open>
  \<open>doc.add_paragraph(text, style)\<close> first appends a new paragraph to the end of the
  body, then adds the text, and only then looks the style up by name. A missing style
  raises \<open>KeyError\<close> at that last step: the appended, unstyled paragraph with its text
  stays in the body. This \<open>KeyError\<close> is the only exception that a handler of \<open>main.py\<close>
  catches and goes on from, so it carries the document as the raise leaves it; after
  any other exception the document is not used again.
\<close>

datatype added = Added document | Style_Missing string document | Raised error

definition add_paragraph :: "string \<Rightarrow> string \<Rightarrow> document \<Rightarrow> added" where
  "add_paragraph txt sty doc =
     (if xml_compatible txt
      then (if sty \<in> set (styles doc)
            then Added (doc\<lparr>paragraphs := paragraphs doc
                          @ [\<lparr>para_text = docx_text txt, para_style = Some sty\<rparr>]\<rparr>)
            else Style_Missing sty
                   (doc\<lparr>paragraphs := paragraphs doc
                          @ [\<lparr>para_text = docx_text txt, para_style = None\<rparr>]\<rparr>))
      else Raised (ValueError
             ''All strings must be XML compatible: Unicode or ASCII, no NULL bytes or control characters''))"

text \<open>
  \<open>doc.add_heading(text, level)\<close>: a level outside 0..9 raises \<open>ValueError\<close>; the style
  is \<open>Title\<close> for level 0 and \<open>Heading <level>\<close> otherwise, handed to \<open>add_paragraph\<close>.
\<close>

definition add_heading :: "string \<Rightarrow> nat \<Rightarrow> document \<Rightarrow> added" where
  "add_heading txt level doc =
     (if 9 < level
      then Raised (ValueError (''level must be in range 0-9, got '' @ string_of_nat level))
      else add_paragraph txt (if level = 0 then ''Title'' else ''Heading '' @ string_of_nat level) doc)"

text \<open>
  \<open>anchor.addnext(new)\<close> (lxml) moves the element \<open>new\<close>, here always the paragraph just
  appended at the end of the body, to the place right behind the anchor, paragraph \<open>s\<close>.
\<close>

definition addnext :: "nat \<Rightarrow> document \<Rightarrow> document" where
  "addnext s doc =
     (case rev (paragraphs doc) of
        [] \<Rightarrow> doc
      | new # others \<Rightarrow>
          doc\<lparr>paragraphs := take (Suc s) (rev others) @ new # drop (Suc s) (rev others)\<rparr>)"

text \<open>
  The statement \<open>doc.paragraphs[start_placeholder]._element.addnext(<added>._element)\<close>:
  the anchor is looked up first (\<open>IndexError\<close> when out of range), then the argument is
  evaluated, which appends the new paragraph, then the new paragraph is moved.
\<close>

definition place_after :: "nat \<Rightarrow> (document \<Rightarrow> added) \<Rightarrow> document \<Rightarrow> added" where
  "place_after s add doc =
     (if s < length (paragraphs doc)
      then (case add doc of
              Added d \<Rightarrow> Added (addnext s d)
            | Style_Missing k d \<Rightarrow> Style_Missing k d
            | Raised e \<Rightarrow> Raised e)
      else Raised IndexError)"

text \<open>Where no handler catches it, the exception of a failed call leaves the function.\<close>

definition uncaught :: "added \<Rightarrow> error + document" where
  "uncaught a =
     (case a of Added d \<Rightarrow> Inr d | Style_Missing k d \<Rightarrow> Inl (KeyError k) | Raised e \<Rightarrow> Inl e)"

section \<open>Content blocks\<close>

text \<open>
  A content block is the dictionary \<open>{'type': ..., 'text': ...}\<close>; the extractor builds
  it with one of five literal type tags, which are the constructors here.
\<close>

datatype content_type = Heading | Paragraph | Heading_2 | Heading_4 | List_Item

record content =
  block_type :: content_type
  block_text :: string

section \<open>Assembly: \<open>insert_content_between_placeholders\<close>\<close>

text \<open>
  The search loop over \<open>enumerate(doc.paragraphs)\<close>: a paragraph containing
  \<open>START_CONTENT\<close> (re)sets the start index; otherwise one containing \<open>END_CONTENT\<close> sets
  the end index and breaks.
\<close>

fun find_placeholders ::
  "docx_paragraph list \<Rightarrow> nat \<Rightarrow> nat option \<Rightarrow> nat option \<times> nat option" where
  "find_placeholders [] i start_placeholder = (start_placeholder, None)"
| "find_placeholders (para # rest) i start_placeholder =
     (if str_contains ''START_CONTENT'' (para_text para)
      then find_placeholders rest (Suc i) (Some i)
      else if str_contains ''END_CONTENT'' (para_text para)
      then (start_placeholder, Some i)
      else find_placeholders rest (Suc i) start_placeholder)"

text \<open>\<open>p = doc.paragraphs[i]; p._element.getparent().remove(p._element)\<close>\<close>

definition remove_paragraph :: "nat \<Rightarrow> document \<Rightarrow> error + document" where
  "remove_paragraph i doc =
     (if i < length (paragraphs doc)
      then Inr (doc\<lparr>paragraphs := take i (paragraphs doc) @ drop (Suc i) (paragraphs doc)\<rparr>)
      else Inl IndexError)"

text \<open>The removal loop, over the indices \<open>range(end_placeholder - 1, start_placeholder, -1)\<close>.\<close>

fun remove_all :: "nat list \<Rightarrow> document \<Rightarrow> error + document" where
  "remove_all [] doc = Inr doc"
| "remove_all (i # is) doc =
     (case remove_paragraph i doc of Inl e \<Rightarrow> Inl e | Inr d \<Rightarrow> remove_all is d)"

definition range_down :: "nat \<Rightarrow> nat \<Rightarrow> nat list" where
  "range_down end_placeholder start_placeholder = rev [Suc start_placeholder..<end_placeholder]"

text \<open>
  The body of the insertion loop. The state is the document and the warnings logged so
  far (\<open>logger.warning\<close>; the info and exception log lines are not modelled). Only the
  \<open>list_item\<close> branch has a handler: on \<open>KeyError\<close> it logs the warning and adds the
  paragraph again with style \<open>Normal\<close>, to the document as the failed call left it.
\<close>

definition list_bullet_warning :: string where
  "list_bullet_warning =
     ''Style 'List Bullet' not found, falling back to 'Normal' style for list items''"

fun insert_block ::
  "nat \<Rightarrow> content \<Rightarrow> document \<times> string list \<Rightarrow> error + document \<times> string list" where
  "insert_block s c (doc, warnings) =
     (case block_type c of
        Heading \<Rightarrow>
          (case uncaught (place_after s (add_heading (block_text c) 1) doc) of
             Inl e \<Rightarrow> Inl e | Inr d \<Rightarrow> Inr (d, warnings))
      | Paragraph \<Rightarrow>
          (case uncaught (place_after s (add_paragraph (block_text c) ''Normal'') doc) of
             Inl e \<Rightarrow> Inl e | Inr d \<Rightarrow> Inr (d, warnings))
      | Heading_2 \<Rightarrow>
          (case uncaught (place_after s (add_heading (block_text c) 2) doc) of
             Inl e \<Rightarrow> Inl e | Inr d \<Rightarrow> Inr (d, warnings))
      | Heading_4 \<Rightarrow>
          (case uncaught (place_after s (add_heading (block_text c) 4) doc) of
             Inl e \<Rightarrow> Inl e | Inr d \<Rightarrow> Inr (d, warnings))
      | List_Item \<Rightarrow>
          (case place_after s (add_paragraph (block_text c) ''List Bullet'') doc of
             Added d \<Rightarrow> Inr (d, warnings)
           | Style_Missing k d1 \<Rightarrow>
               (case uncaught (place_after s (add_paragraph (block_text c) ''Normal'') d1) of
                  Inl e \<Rightarrow> Inl e
                | Inr d \<Rightarrow> Inr (d, warnings @ [list_bullet_warning]))
           | Raised e \<Rightarrow> Inl e))"

fun insert_blocks ::
  "nat \<Rightarrow> content list \<Rightarrow> document \<times> string list \<Rightarrow> error + document \<times> string list" where
  "insert_blocks s [] st = Inr st"
| "insert_blocks s (c # cs) st =
     (case insert_block s c st of Inl e \<Rightarrow> Inl e | Inr st' \<Rightarrow> insert_blocks s cs st')"

text \<open>\<open>doc.paragraphs[i].text = txt\<close>\<close>

definition set_text :: "nat \<Rightarrow> string \<Rightarrow> document \<Rightarrow> error + document" where
  "set_text i txt doc =
     (if i < length (paragraphs doc)
      then Inr (doc\<lparr>paragraphs := (paragraphs doc)[i := (paragraphs doc ! i)\<lparr>para_text := txt\<rparr>]\<rparr>)
      else Inl IndexError)"

text \<open>
  The whole function. Every exception is logged and raised again, so the result is the
  error, or the document as the function leaves it together with the warnings.
\<close>

definition insert_content_between_placeholders ::
  "document \<Rightarrow> content list \<Rightarrow> error + document \<times> string list" where
  "insert_content_between_placeholders doc content_list =
     (case find_placeholders (paragraphs doc) 0 None of
        (Some start_placeholder, Some end_placeholder) \<Rightarrow>
          (case remove_all (range_down end_placeholder start_placeholder) doc of
             Inl e \<Rightarrow> Inl e
           | Inr d1 \<Rightarrow>
               (case insert_blocks start_placeholder (rev content_list) (d1, []) of
                  Inl e \<Rightarrow> Inl e
                | Inr (d2, warnings) \<Rightarrow>
                    (case set_text start_placeholder [] d2 of
                       Inl e \<Rightarrow> Inl e
                     | Inr d3 \<Rightarrow>
                         (case set_text end_placeholder [] d3 of
                            Inl e \<Rightarrow> Inl e
                          | Inr d4 \<Rightarrow> Inr (d4, warnings)))))
      | _ \<Rightarrow> Inl (Exception ''Could not find both placeholders''))"

section \<open>Parsed pages (BeautifulSoup)\<close>

text \<open>
  A parsed page is a tree of tags and strings. A tag has its name, the value of its
  \<open>class\<close> attribute (which the parser splits into a list of tokens; \<open>None\<close> when the
  attribute is absent), its other attributes and its children in document order. A
  string is a plain \<open>NavigableString\<close> or an object of one of its subclasses: a comment, a
  CDATA section, the text of a \<open>script\<close>, \<open>style\<close>, \<open>template\<close>, \<open>rt\<close> or \<open>rp\<close> element, a
  declaration, a doctype, a processing instruction.
\<close>

datatype string_class =
    CData | Comment | Script | Stylesheet | TemplateString | RubyTextString
  | RubyParenthesisString | Declaration | Doctype | ProcessingInstruction

datatype node =
    Tag string "string list option" "string \<Rightarrow> string option" "node list"
  | NavigableString string
  | Special_String string_class string

text \<open>All nodes below a node, in document order (\<open>.descendants\<close>).\<close>

fun descendants :: "node \<Rightarrow> node list" where
  "descendants (NavigableString s) = []"
| "descendants (Special_String k s) = []"
| "descendants (Tag name cls attrs kids) = concat (map (\<lambda>k. k # descendants k) kids)"

text \<open>
  \<open>.get_text()\<close> concatenates the strings below the tag whose class is one of the tag's
  interesting string types: plain strings and CDATA
  sections for most tags; for a \<open>script\<close>, \<open>style\<close>, \<open>template\<close>, \<open>rt\<close> or \<open>rp\<close> tag the
  strings of its own container class only. Comments, and script, style, template and
  ruby strings below another tag, are left out.
\<close>

fun interesting_string :: "string \<Rightarrow> node \<Rightarrow> bool" where
  "interesting_string name (Tag n cls attrs kids) = False"
| "interesting_string name (NavigableString s) =
     (name \<notin> set [''script'', ''style'', ''template'', ''rt'', ''rp''])"
| "interesting_string name (Special_String k s) =
     (if name = ''script'' then k = Script
      else if name = ''style'' then k = Stylesheet
      else if name = ''template'' then k = TemplateString
      else if name = ''rt'' then k = RubyTextString
      else if name = ''rp'' then k = RubyParenthesisString
      else k = CData)"

fun string_of :: "node \<Rightarrow> string" where
  "string_of (Tag n cls attrs kids) = []"
| "string_of (NavigableString s) = s"
| "string_of (Special_String k s) = s"

fun get_text :: "node \<Rightarrow> string" where
  "get_text (Tag name cls attrs kids) =
     concat (map string_of (filter (interesting_string name) (descendants (Tag name cls attrs kids))))"
| "get_text (NavigableString s) = s"
| "get_text (Special_String k s) = s"

fun is_tag :: "node \<Rightarrow> bool" where
  "is_tag (Tag name cls attrs kids) = True"
| "is_tag (NavigableString s) = False"
| "is_tag (Special_String k s) = False"

fun has_name :: "string \<Rightarrow> node \<Rightarrow> bool" where
  "has_name nm (Tag name cls attrs kids) = (name = nm)"
| "has_name nm (NavigableString s) = False"
| "has_name nm (Special_String k s) = False"

fun has_id :: "string \<Rightarrow> node \<Rightarrow> bool" where
  "has_id v (Tag name cls attrs kids) = (attrs ''id'' = Some v)"
| "has_id v (NavigableString s) = False"
| "has_id v (Special_String k s) = False"

fun join_spaces :: "string list \<Rightarrow> string" where
  "join_spaces [] = []"
| "join_spaces [x] = x"
| "join_spaces (x # y # ys) = x @ '' '' @ join_spaces (y # ys)"

text \<open>
  The filter \<open>class_=v\<close>: one of the class tokens is \<open>v\<close>, or the tokens joined by single
  spaces are \<open>v\<close>.
\<close>

fun has_class :: "string \<Rightarrow> node \<Rightarrow> bool" where
  "has_class v (Tag name cls attrs kids) =
     (case cls of None \<Rightarrow> False | Some tokens \<Rightarrow> v \<in> set tokens \<or> join_spaces tokens = v)"
| "has_class v (NavigableString s) = False"
| "has_class v (Special_String k s) = False"

text \<open>\<open>.find_all(...)\<close> and \<open>.find(...)\<close> search the descendants in document order.\<close>

definition soup_find_all :: "(node \<Rightarrow> bool) \<Rightarrow> node \<Rightarrow> node list" where
  "soup_find_all matches root = filter matches (descendants root)"

definition soup_find :: "(node \<Rightarrow> bool) \<Rightarrow> node \<Rightarrow> node option" where
  "soup_find matches root = List.find matches (descendants root)"

text \<open>\<open>.find_all(recursive=False)\<close>: the children that are tags.\<close>

fun child_tags :: "node \<Rightarrow> node list" where
  "child_tags (Tag name cls attrs kids) = filter is_tag kids"
| "child_tags (NavigableString s) = []"
| "child_tags (Special_String k s) = []"

text \<open>
  The world outside the program. \<open>requests.get(url)\<close> followed by
  \<open>BeautifulSoup(response.content, 'html.parser')\<close> yields the parsed page behind a URL, or
  raises (\<open>None\<close>); neither caller looks at the HTTP status.
\<close>

type_synonym web = "string \<Rightarrow> node option"

section \<open>URL discovery: \<open>fetch_article_urls\<close>\<close>

definition page_url :: "string \<Rightarrow> int \<Rightarrow> string" where
  "page_url base_url page =
     (if page = 1 then base_url else base_url @ ''page/'' @ string_of_nat (nat page) @ ''/'')"

text \<open>
  The inner loop over \<open>soup.find_all('h1', id='list')\<close>: the first \<open>a\<close> tag below the
  heading contributes its \<open>href\<close> when that is present and not empty.
\<close>

fun link_of :: "node \<Rightarrow> string list" where
  "link_of h1_tag =
     (case soup_find (has_name ''a'') h1_tag of
        None \<Rightarrow> []
      | Some (NavigableString s) \<Rightarrow> []
      | Some (Special_String k s) \<Rightarrow> []
      | Some (Tag name cls attrs kids) \<Rightarrow>
          (case attrs ''href'' of
             None \<Rightarrow> []
           | Some href \<Rightarrow> if href = [] then [] else [href]))"

definition page_links :: "node \<Rightarrow> string list" where
  "page_links soup =
     concat (map link_of (soup_find_all (\<lambda>t. has_name ''h1'' t \<and> has_id ''list'' t) soup))"

text \<open>
  The loop over \<open>range(1, pages + 1)\<close> stands inside the \<open>try\<close>: an exception leaves the
  loop, and the function returns the URLs appended so far.
\<close>

fun fetch_pages :: "web \<Rightarrow> string \<Rightarrow> int list \<Rightarrow> string list \<Rightarrow> string list" where
  "fetch_pages www base_url [] article_urls = article_urls"
| "fetch_pages www base_url (page # rest) article_urls =
     (case www (page_url base_url page) of
        None \<Rightarrow> article_urls
      | Some soup \<Rightarrow> fetch_pages www base_url rest (article_urls @ page_links soup))"

definition fetch_article_urls :: "web \<Rightarrow> string \<Rightarrow> int \<Rightarrow> string list" where
  "fetch_article_urls www base_url pages = fetch_pages www base_url [1..pages] []"

section \<open>Extraction: \<open>scrape_and_get_content\<close>\<close>

definition share_buttons :: "string list" where
  "share_buttons =
     [''sharethis-inline-share-buttons'', ''st-center'', ''st-has-labels'',
      ''st-inline-share-buttons'', ''st-animated'']"

text \<open>The bullet glyph U+2022 and a space, in UTF-8.\<close>

definition bullet :: string where
  "bullet = [CHR 0xE2, CHR 0x80, CHR 0xA2, CHR '' '']"

text \<open>The body of the loop over the direct children of the main content.\<close>

fun child_blocks :: "node \<Rightarrow> content list" where
  "child_blocks (NavigableString s) = []"
| "child_blocks (Special_String k s) = []"
| "child_blocks (Tag name cls attrs kids) =
     (if cls = Some share_buttons \<or> cls = Some [''prenext''] then []
      else if name = ''p''
      then [\<lparr>block_type = Paragraph, block_text = get_text (Tag name cls attrs kids)\<rparr>]
      else if name = ''h2''
      then [\<lparr>block_type = Heading_2, block_text = get_text (Tag name cls attrs kids)\<rparr>]
      else if name = ''h4''
      then [\<lparr>block_type = Heading_4, block_text = get_text (Tag name cls attrs kids)\<rparr>]
      else if name = ''ul''
      then map (\<lambda>li. \<lparr>block_type = List_Item, block_text = bullet @ get_text li\<rparr>)
             (soup_find_all (has_name ''li'') (Tag name cls attrs kids))
      else [])"

text \<open>
  Every exception is caught and the function returns \<open>content_list\<close> as it stands. The
  three raises (the request, the missing container, the missing heading) all happen
  while \<open>content_list\<close> is still empty.
\<close>

definition scrape_and_get_content :: "web \<Rightarrow> string \<Rightarrow> content list" where
  "scrape_and_get_content www url =
     (case www url of
        None \<Rightarrow> []
      | Some soup \<Rightarrow>
          (case soup_find (\<lambda>t. has_name ''div'' t \<and> has_class ''inside_post column content_width'' t) soup of
             None \<Rightarrow> []
           | Some main_content \<Rightarrow>
               (case soup_find (\<lambda>t. has_name ''h1'' t \<and> has_id ''list'' t) main_content of
                  None \<Rightarrow> []
                | Some heading \<Rightarrow>
                    \<lparr>block_type = Heading, block_text = get_text heading\<rparr>
                      # concat (map child_blocks (child_tags main_content)))))"

section \<open>The dedup store: \<open>check_and_insert_urls\<close>\<close>

text \<open>
  The collection holds the \<open>url\<close> fields of its documents. It is an external service, so
  a call can raise: \<open>faults\<close> scripts the coming calls, \<open>True\<close> for a call that raises, and
  each call consumes the head of the script (an empty script: no further failure).
\<close>

record collection =
  docs :: "string list"
  faults :: "bool list"

definition find_one :: "string \<Rightarrow> collection \<Rightarrow> (error + bool) \<times> collection" where
  "find_one url c =
     (case faults c of
        True # fs \<Rightarrow> (Inl (Exception ''PyMongoError''), c\<lparr>faults := fs\<rparr>)
      | _ \<Rightarrow> (Inr (url \<in> set (docs c)), c\<lparr>faults := tl (faults c)\<rparr>))"

definition insert_one :: "string \<Rightarrow> collection \<Rightarrow> (error + unit) \<times> collection" where
  "insert_one url c =
     (case faults c of
        True # fs \<Rightarrow> (Inl (Exception ''PyMongoError''), c\<lparr>faults := fs\<rparr>)
      | _ \<Rightarrow> (Inr (), c\<lparr>docs := docs c @ [url], faults := tl (faults c)\<rparr>))"

text \<open>
  The loop stands inside the \<open>try\<close>: an exception of the store leaves the loop and the
  function returns \<open>new_urls\<close> as it stands. The URL is appended to \<open>new_urls\<close> before it is
  inserted into the store.
\<close>

fun check_urls :: "string list \<Rightarrow> string list \<Rightarrow> collection \<Rightarrow> string list \<times> collection" where
  "check_urls [] new_urls c = (new_urls, c)"
| "check_urls (url # urls) new_urls c =
     (if str_contains ''daily-current-affairs-quiz'' url then check_urls urls new_urls c
      else (case find_one url c of
              (Inl e, c1) \<Rightarrow> (new_urls, c1)
            | (Inr True, c1) \<Rightarrow> check_urls urls new_urls c1
            | (Inr False, c1) \<Rightarrow>
                (case insert_one url c1 of
                   (Inl e, c2) \<Rightarrow> (new_urls @ [url], c2)
                 | (Inr u, c2) \<Rightarrow> check_urls urls (new_urls @ [url]) c2)))"

definition check_and_insert_urls :: "string list \<Rightarrow> collection \<Rightarrow> string list \<times> collection" where
  "check_and_insert_urls urls c = check_urls urls [] c"

section \<open>Publishing: \<open>send_pdf_to_telegram\<close>\<close>

text \<open>
  The bot is an external service: \<open>send_document i\<close> is what the call of
  \<open>bot.send_document\<close> in iteration \<open>i\<close> does. The trace records the calls and the sleeps.
  Opening the file that was just renamed is taken to succeed.
\<close>

datatype send_result = Sent | TimedOut | Failed

datatype send_event = Send_Document send_result | Sleep nat

text \<open>
  The loop \<open>for _ in range(3)\<close>: success breaks, a timeout logs a warning, sleeps five
  seconds and goes on with the next iteration, any other exception is raised again.
  When the iterations are used up the loop ends and the function returns.
\<close>

fun send_loop :: "nat list \<Rightarrow> (nat \<Rightarrow> send_result) \<Rightarrow> send_event list \<Rightarrow> (error + unit) \<times> send_event list" where
  "send_loop [] send_document trace = (Inr (), trace)"
| "send_loop (i # rest) send_document trace =
     (case send_document i of
        Sent \<Rightarrow> (Inr (), trace @ [Send_Document Sent])
      | TimedOut \<Rightarrow> send_loop rest send_document (trace @ [Send_Document TimedOut, Sleep 5])
      | Failed \<Rightarrow> (Inl TelegramError, trace @ [Send_Document Failed]))"

definition send_pdf_to_telegram :: "(nat \<Rightarrow> send_result) \<Rightarrow> (error + unit) \<times> send_event list" where
  "send_pdf_to_telegram send_document = send_loop [0..<3] send_document []"

section \<open>The run: module setup and \<open>main\<close>\<close>

text \<open>
  What the run reads from outside: the environment variables, the pages behind URLs, the
  template behind the download address (the bytes \<open>download_template\<close> returns, as
  \<open>Document(...)\<close> opens them, or the exception of either step), whether the converter
  and the renaming of its output succeed, and the bot. The date in the file name and in
  the caption is left out; the caption is represented by the list of titles it prints.
\<close>

record world =
  environ :: "string \<Rightarrow> string option"
  requests_get :: web
  template_docx :: "string \<Rightarrow> error + document"
  libreoffice :: bool
  os_rename :: bool
  telegram_bot :: "nat \<Rightarrow> send_result"

text \<open>A value of \<open>os.environ.get\<close> is truthy when the variable is set and not empty.\<close>

definition env_set :: "world \<Rightarrow> string \<Rightarrow> bool" where
  "env_set w k = (case environ w k of None \<Rightarrow> False | Some v \<Rightarrow> v \<noteq> [])"

definition download_template :: "world \<Rightarrow> string \<Rightarrow> error + document" where
  "download_template w url =
     template_docx w (str_replace ''/edit?usp=sharing'' ''/export?format=docx'' url)"

text \<open>
  The loop of \<open>main\<close> over \<open>new_urls\<close>. \<open>content_list[0]\<close> raises \<open>IndexError\<close> on an empty
  list; nothing in the loop catches it.
\<close>

fun scrape_all ::
  "web \<Rightarrow> string list \<Rightarrow> content list \<Rightarrow> string list \<Rightarrow> error + content list \<times> string list" where
  "scrape_all www [] all_content english_titles = Inr (all_content, english_titles)"
| "scrape_all www (url # urls) all_content english_titles =
     (case scrape_and_get_content www url of
        [] \<Rightarrow> Inl IndexError
      | c # cs \<Rightarrow> scrape_all www urls (all_content @ c # cs) (english_titles @ [block_text c]))"

text \<open>
  A run that returns normally either found nothing new, or went through to the end:
  then the result holds the assembled document, the titles of the caption and the
  trace of the publishing step.
\<close>

datatype run_result = No_New_Urls | Finished document "string list" "send_event list"

definition main :: "world \<Rightarrow> collection \<Rightarrow> (error + run_result) \<times> collection" where
  "main w c =
     (case check_and_insert_urls
             (fetch_article_urls (requests_get w) ''https://www.gktoday.in/current-affairs/'' 3) c of
        (new_urls, c1) \<Rightarrow>
          if new_urls = [] then (Inr No_New_Urls, c1)
          else if env_set w ''TEMPLATE_URL''
          then
            (case download_template w (case environ w ''TEMPLATE_URL'' of None \<Rightarrow> [] | Some v \<Rightarrow> v) of
               Inl e \<Rightarrow> (Inl e, c1)
             | Inr doc \<Rightarrow>
                 (case scrape_all (requests_get w) new_urls [] [] of
                    Inl e \<Rightarrow> (Inl e, c1)
                  | Inr (all_content, english_titles) \<Rightarrow>
                      (case insert_content_between_placeholders doc all_content of
                         Inl e \<Rightarrow> (Inl e, c1)
                       | Inr (assembled, warnings) \<Rightarrow>
                           if libreoffice w
                           then
                             if os_rename w
                             then
                               if env_set w ''TELEGRAM_BOT_TOKEN'' \<and> env_set w ''TELEGRAM_CHANNEL_ID''
                               then
                                 (case send_pdf_to_telegram (telegram_bot w) of
                                    (Inl e, trace) \<Rightarrow> (Inl e, c1)
                                  | (Inr u, trace) \<Rightarrow> (Inr (Finished assembled english_titles trace), c1))
                               else (Inl (ValueError
                                 ''TELEGRAM_BOT_TOKEN or TELEGRAM_CHANNEL_ID environment variable is not set''), c1)
                             else (Inl OSError, c1)
                           else (Inl CalledProcessError, c1))))
          else (Inl (ValueError ''TEMPLATE_URL environment variable is not set''), c1))"

text \<open>
  The script: the module-level check of the three database settings runs at import,
  before \<open>main\<close> is called.
\<close>

definition script :: "world \<Rightarrow> collection \<Rightarrow> (error + run_result) \<times> collection" where
  "script w c =
     (if env_set w ''DB_NAME'' \<and> env_set w ''COLLECTION_NAME'' \<and> env_set w ''MONGO_CONNECTION_STRING''
      then main w c
      else (Inl (ValueError ''One or more required MongoDB environment variables are not set''), c))"

section \<open>Concrete inputs\<close>

text \<open>
  A template with some text before and after the two placeholders and one old paragraph
  between them. Its style table has the heading styles and \<open>Normal\<close>, but no
  \<open>List Bullet\<close>.
\<close>

definition example_template :: document where
  "example_template =
     \<lparr>paragraphs =
        [\<lparr>para_text = ''Intro'', para_style = Some ''Normal''\<rparr>,
         \<lparr>para_text = ''START_CONTENT'', para_style = Some ''Normal''\<rparr>,
         \<lparr>para_text = ''OLD'', para_style = Some ''Normal''\<rparr>,
         \<lparr>para_text = ''END_CONTENT'', para_style = Some ''Normal''\<rparr>,
         \<lparr>para_text = ''Footer'', para_style = Some ''Normal''\<rparr>],
      styles = [''Normal'', ''Heading 1'', ''Heading 2'', ''Heading 4'']\<rparr>"

text \<open>The same with three old paragraphs between the placeholders.\<close>

definition long_template :: document where
  "long_template =
     \<lparr>paragraphs =
        [\<lparr>para_text = ''Intro'', para_style = Some ''Normal''\<rparr>,
         \<lparr>para_text = ''START_CONTENT'', para_style = Some ''Normal''\<rparr>,
         \<lparr>para_text = ''OLD1'', para_style = Some ''Normal''\<rparr>,
         \<lparr>para_text = ''OLD2'', para_style = Some ''Normal''\<rparr>,
         \<lparr>para_text = ''OLD3'', para_style = Some ''Normal''\<rparr>,
         \<lparr>para_text = ''END_CONTENT'', para_style = Some ''Normal''\<rparr>,
         \<lparr>para_text = ''Footer'', para_style = Some ''Normal''\<rparr>],
      styles = [''Normal'', ''Heading 1'', ''Heading 2'', ''Heading 4'']\<rparr>"

text \<open>A listing page with one \<open><h1 id="list"><a href=...>\<close> per URL.\<close>

definition listing_page :: "string list \<Rightarrow> node" where
  "listing_page urls =
     Tag ''[document]'' None Map.empty
       (map (\<lambda>u. Tag ''h1'' None [''id'' \<mapsto> ''list'']
                    [Tag ''a'' None [''href'' \<mapsto> u] [NavigableString ''headline'']]) urls)"

text \<open>An article page: the main content holds the title and one paragraph.\<close>

definition article_page :: "string \<Rightarrow> string \<Rightarrow> node" where
  "article_page title body =
     Tag ''[document]'' None Map.empty
       [Tag ''div'' (Some [''inside_post'', ''column'', ''content_width'']) Map.empty
          [Tag ''h1'' None [''id'' \<mapsto> ''list''] [NavigableString title],
           Tag ''p'' None Map.empty [NavigableString body]]]"

text \<open>A page without the main content container, as an error page is.\<close>

definition error_page :: node where
  "error_page =
     Tag ''[document]'' None Map.empty [Tag ''p'' None Map.empty [NavigableString ''Not Found'']]"

definition example_env :: "string \<Rightarrow> string option" where
  "example_env =
     [''DB_NAME'' \<mapsto> ''db'', ''COLLECTION_NAME'' \<mapsto> ''urls'',
      ''MONGO_CONNECTION_STRING'' \<mapsto> ''mongodb://db'',
      ''TEMPLATE_URL'' \<mapsto> ''https://docs/d/1/edit?usp=sharing'',
      ''TELEGRAM_BOT_TOKEN'' \<mapsto> ''token'', ''TELEGRAM_CHANNEL_ID'' \<mapsto> ''@channel'']"

text \<open>The first listing page links two articles; the other listing pages cannot be fetched.\<close>

definition example_web :: web where
  "example_web url =
     (if url = ''https://www.gktoday.in/current-affairs/''
      then Some (listing_page [''https://www.gktoday.in/a1/'', ''https://www.gktoday.in/a2/''])
      else if url = ''https://www.gktoday.in/a1/'' then Some (article_page ''T1'' ''P1'')
      else if url = ''https://www.gktoday.in/a2/'' then Some (article_page ''T2'' ''P2'')
      else None)"

text \<open>The same, but the first article answers with an error page.\<close>

definition broken_article_web :: web where
  "broken_article_web url =
     (if url = ''https://www.gktoday.in/a1/'' then Some error_page else example_web url)"

text \<open>The first listing page cannot be fetched, the second one links an article.\<close>

definition first_page_down :: web where
  "first_page_down url =
     (if url = ''https://www.gktoday.in/current-affairs/page/2/''
      then Some (listing_page [''https://www.gktoday.in/a1/''])
      else None)"

definition example_world :: world where
  "example_world =
     \<lparr>environ = example_env, requests_get = example_web,
      template_docx = (\<lambda>url. if url = ''https://docs/d/1/export?format=docx''
                              then Inr example_template else Inl RequestException),
      libreoffice = True, os_rename = True, telegram_bot = (\<lambda>i. Sent)\<rparr>"

definition empty_store :: collection where
  "empty_store = \<lparr>docs = [], faults = []\<rparr>"

section \<open>The dedup filter\<close>

lemma find_one_docs: "find_one url c = (r, c1) \<Longrightarrow> docs c1 = docs c"
  by (auto simp: find_one_def split: list.splits bool.splits)

lemma find_one_False: "find_one url c = (Inr False, c1) \<Longrightarrow> url \<notin> set (docs c)"
  by (auto simp: find_one_def split: list.splits bool.splits)

lemma insert_one_Inr: "insert_one url c = (Inr u, c2) \<Longrightarrow> docs c2 = docs c @ [url]"
  by (auto simp: insert_one_def split: list.splits bool.splits)

text \<open>
  The invariant of the loop for a URL \<open>u\<close> of the store: \<open>u\<close> stays in the store and out
  of \<open>new_urls\<close>.
\<close>

lemma check_urls_known:
  "u \<in> set (docs c) \<Longrightarrow> u \<notin> set new_urls \<Longrightarrow> u \<notin> set (fst (check_urls urls new_urls c))"
proof (induction urls new_urls c rule: check_urls.induct)
  case (1 new_urls c)
  then show ?case by simp
next
  case (2 url urls new_urls c)
  show ?case
  proof (cases "str_contains ''daily-current-affairs-quiz'' url")
    case True
    with 2 show ?thesis by simp
  next
    case False
    obtain r c1 where f: "find_one url c = (r, c1)" by (cases "find_one url c")
    have d1: "docs c1 = docs c" using f by (rule find_one_docs)
    show ?thesis
    proof (cases r)
      case (Inl e)
      with False f 2 show ?thesis by simp
    next
      case (Inr b)
      show ?thesis
      proof (cases b)
        case True
        with False f Inr 2 d1 show ?thesis by simp
      next
        case F: False
        have "url \<notin> set (docs c)" using f Inr F find_one_False by simp
        with 2 have ne: "u \<noteq> url" by auto
        obtain r2 c2 where i: "insert_one url c1 = (r2, c2)" by (cases "insert_one url c1")
        show ?thesis
        proof (cases r2)
          case (Inl e)
          with False f Inr F i 2 ne show ?thesis by simp
        next
          case (Inr x)
          with i have "docs c2 = docs c1 @ [url]" by (simp add: insert_one_Inr)
          with d1 2 have "u \<in> set (docs c2)" by simp
          moreover have "u \<notin> set (new_urls @ [url])" using 2 ne by simp
          ultimately have "u \<notin> set (fst (check_urls urls (new_urls @ [url]) c2))"
            using "2.IH"(3)[OF False f[symmetric] _ _ i[symmetric]] \<open>r = Inr b\<close> F Inr
            by simp
          with False f \<open>r = Inr b\<close> F i Inr show ?thesis by simp
        qed
      qed
    qed
  qed
qed

text \<open>
  The invariant of the loop for the list itself: \<open>new_urls\<close> has no repetition and all
  its members are in the store. A URL enters \<open>new_urls\<close> only when the store does not have
  it; when its insertion fails the loop is left at once.
\<close>

lemma check_urls_distinct:
  "distinct new_urls \<Longrightarrow> set new_urls \<subseteq> set (docs c) \<Longrightarrow>
   distinct (fst (check_urls urls new_urls c))"
proof (induction urls new_urls c rule: check_urls.induct)
  case (1 new_urls c)
  then show ?case by simp
next
  case (2 url urls new_urls c)
  show ?case
  proof (cases "str_contains ''daily-current-affairs-quiz'' url")
    case True
    with 2 show ?thesis by simp
  next
    case False
    obtain r c1 where f: "find_one url c = (r, c1)" by (cases "find_one url c")
    have d1: "docs c1 = docs c" using f by (rule find_one_docs)
    show ?thesis
    proof (cases r)
      case (Inl e)
      with False f 2 show ?thesis by simp
    next
      case (Inr b)
      show ?thesis
      proof (cases b)
        case True
        with False f Inr 2 d1 show ?thesis by simp
      next
        case F: False
        have "url \<notin> set (docs c)" using f Inr F find_one_False by simp
        with 2 have fresh: "url \<notin> set new_urls" by auto
        have dist: "distinct (new_urls @ [url])" using 2 fresh by simp
        obtain r2 c2 where i: "insert_one url c1 = (r2, c2)" by (cases "insert_one url c1")
        show ?thesis
        proof (cases r2)
          case (Inl e)
          with False f Inr F i dist show ?thesis by simp
        next
          case (Inr x)
          with i have "docs c2 = docs c1 @ [url]" by (simp add: insert_one_Inr)
          with d1 2 have "set (new_urls @ [url]) \<subseteq> set (docs c2)" by auto
          with dist have "distinct (fst (check_urls urls (new_urls @ [url]) c2))"
            using "2.IH"(3)[OF False f[symmetric] _ _ i[symmetric]] \<open>r = Inr b\<close> F Inr
            by simp
          with False f \<open>r = Inr b\<close> F i Inr show ?thesis by simp
        qed
      qed
    qed
  qed
qed

text \<open>
  C9. A URL that the store holds when the filter starts is not in the list of new URLs
  that the filter returns, whatever the candidate list is and however often the URL
  occurs in it.
\<close>

theorem known_url_never_selected:
  "url \<in> set (docs c) \<Longrightarrow> url \<notin> set (fst (check_and_insert_urls urls c))"
  unfolding check_and_insert_urls_def by (rule check_urls_known) simp_all

theorem known_url_never_selected_witness:
  "''https://a/'' \<in> set (docs \<lparr>docs = [''https://a/''], faults = []\<rparr>) \<and>
   ''https://a/'' \<notin> set (fst (check_and_insert_urls [''https://a/'', ''https://b/'', ''https://a/'']
                                  \<lparr>docs = [''https://a/''], faults = []\<rparr>))"
  using known_url_never_selected
    [of "''https://a/''" "\<lparr>docs = [''https://a/''], faults = []\<rparr>"
        "[''https://a/'', ''https://b/'', ''https://a/'']"]
  by simp

text \<open>
  C10. The list of new URLs that the filter returns has no URL twice, for every
  candidate list and every store, also when the candidate list repeats a URL: an accepted
  URL is inserted into the store at once, so a later occurrence fails the existence check.
\<close>

theorem new_urls_distinct: "distinct (fst (check_and_insert_urls urls c))"
  unfolding check_and_insert_urls_def by (rule check_urls_distinct) simp_all

section \<open>Extraction\<close>

lemma child_blocks_no_heading: "c \<in> set (child_blocks n) \<Longrightarrow> block_type c \<noteq> Heading"
  by (cases n) (auto split: if_splits)

text \<open>The result is empty, or the title block followed by blocks of the other kinds.\<close>

lemma scrape_shape:
  "scrape_and_get_content www url = [] \<or>
   (\<exists>t rest. scrape_and_get_content www url = \<lparr>block_type = Heading, block_text = t\<rparr> # rest
      \<and> filter (\<lambda>c. block_type c = Heading) rest = [])"
  by (auto simp: scrape_and_get_content_def filter_empty_conv dest: child_blocks_no_heading
      split: option.splits)

text \<open>
  C7. When the extractor returns a non-empty sequence, its first block is a heading
  block, and it is the only heading block of the sequence.
\<close>

theorem heading_first_and_only:
  "scrape_and_get_content www url \<noteq> [] \<Longrightarrow>
   block_type (hd (scrape_and_get_content www url)) = Heading \<and>
   length (filter (\<lambda>c. block_type c = Heading) (scrape_and_get_content www url)) = 1"
  using scrape_shape[of www url] by auto

text \<open>
  The three failures of the extraction, the request, the missing container and the
  missing title, each give the empty list; no exception leaves the function.
\<close>

theorem failed_extraction_returns_empty:
  "www url = None \<or>
   (\<exists>soup. www url = Some soup \<and>
      soup_find (\<lambda>t. has_name ''div'' t \<and> has_class ''inside_post column content_width'' t) soup = None) \<or>
   (\<exists>soup main_content. www url = Some soup \<and>
      soup_find (\<lambda>t. has_name ''div'' t \<and> has_class ''inside_post column content_width'' t) soup
        = Some main_content \<and>
      soup_find (\<lambda>t. has_name ''h1'' t \<and> has_id ''list'' t) main_content = None) \<Longrightarrow>
   scrape_and_get_content www url = []"
  by (auto simp: scrape_and_get_content_def)

lemmas page_defs =
  soup_find_all_def soup_find_def scrape_and_get_content_def page_links_def
  listing_page_def article_page_def error_page_def share_buttons_def
  example_web_def broken_article_web_def first_page_down_def

lemma scrape_a1:
  "scrape_and_get_content example_web ''https://www.gktoday.in/a1/'' =
     [\<lparr>block_type = Heading, block_text = ''T1''\<rparr>, \<lparr>block_type = Paragraph, block_text = ''P1''\<rparr>]"
  by (simp add: page_defs)

lemma scrape_a2:
  "scrape_and_get_content example_web ''https://www.gktoday.in/a2/'' =
     [\<lparr>block_type = Heading, block_text = ''T2''\<rparr>, \<lparr>block_type = Paragraph, block_text = ''P2''\<rparr>]"
  by (simp add: page_defs)

theorem heading_first_and_only_witness:
  "scrape_and_get_content example_web ''https://www.gktoday.in/a1/'' \<noteq> [] \<and>
   block_type (hd (scrape_and_get_content example_web ''https://www.gktoday.in/a1/'')) = Heading \<and>
   length (filter (\<lambda>c. block_type c = Heading)
             (scrape_and_get_content example_web ''https://www.gktoday.in/a1/'')) = 1"
  using heading_first_and_only [of example_web "''https://www.gktoday.in/a1/''"]
  by (simp add: scrape_a1)

theorem failed_extraction_returns_empty_witness:
  "example_web ''https://www.gktoday.in/a3/'' = None \<and>
   scrape_and_get_content example_web ''https://www.gktoday.in/a3/'' = []"
proof -
  have h: "example_web ''https://www.gktoday.in/a3/'' = None" by (simp add: example_web_def)
  show ?thesis
    using h failed_extraction_returns_empty [of example_web "''https://www.gktoday.in/a3/''"]
    by simp
qed

section \<open>URL discovery\<close>

lemma fetch_pages_eq:
  "fetch_pages www base_url ps acc =
     acc @ concat (map (\<lambda>p. case www (page_url base_url p) of None \<Rightarrow> [] | Some soup \<Rightarrow> page_links soup)
                    (takeWhile (\<lambda>p. www (page_url base_url p) \<noteq> None) ps))"
  by (induction ps arbitrary: acc) (auto split: option.splits)

text \<open>
  C5, as the code has it. The result is the links of the pages before the first page
  whose fetch fails, in page order: the exception is caught, the failing page gives no
  URL, and no page after it is fetched.
\<close>

theorem fetch_article_urls_until_first_failure:
  "fetch_article_urls www base_url pages =
     concat (map (\<lambda>p. case www (page_url base_url p) of None \<Rightarrow> [] | Some soup \<Rightarrow> page_links soup)
               (takeWhile (\<lambda>p. www (page_url base_url p) \<noteq> None) [1..pages]))"
  by (simp add: fetch_article_urls_def fetch_pages_eq)

lemma page_url_examples:
  "page_url ''https://www.gktoday.in/current-affairs/'' 1 = ''https://www.gktoday.in/current-affairs/''"
  "page_url ''https://www.gktoday.in/current-affairs/'' 2 = ''https://www.gktoday.in/current-affairs/page/2/''"
  "page_url ''https://www.gktoday.in/current-affairs/'' 3 = ''https://www.gktoday.in/current-affairs/page/3/''"
  by (simp_all add: page_url_def string_of_nat.simps)

text \<open>
  C5 as stated fails: the first of two listing pages cannot be fetched, the second one
  links an article, and the function returns no URL.
\<close>

theorem later_pages_not_fetched:
  "first_page_down (page_url ''https://www.gktoday.in/current-affairs/'' 1) = None \<and>
   (case first_page_down (page_url ''https://www.gktoday.in/current-affairs/'' 2) of
      None \<Rightarrow> [] | Some soup \<Rightarrow> page_links soup) = [''https://www.gktoday.in/a1/''] \<and>
   fetch_article_urls first_page_down ''https://www.gktoday.in/current-affairs/'' 2 = []"
  by (simp add: page_url_examples page_defs fetch_article_urls_def upto.simps)

section \<open>Assembly\<close>

lemma addnext_append:
  "addnext s (doc\<lparr>paragraphs := ps @ [p]\<rparr>) = doc\<lparr>paragraphs := take (Suc s) ps @ p # drop (Suc s) ps\<rparr>"
  by (simp add: addnext_def)

text \<open>With the style in the table, the new paragraph lands right behind the anchor.\<close>

lemma place_after_styled:
  "s < length (paragraphs doc) \<Longrightarrow> xml_compatible txt \<Longrightarrow> sty \<in> set (styles doc) \<Longrightarrow>
   place_after s (add_paragraph txt sty) doc =
     Added (doc\<lparr>paragraphs := take (Suc s) (paragraphs doc)
            @ \<lparr>para_text = docx_text txt, para_style = Some sty\<rparr> # drop (Suc s) (paragraphs doc)\<rparr>)"
  by (simp add: place_after_def add_paragraph_def addnext_append)

text \<open>Without it, the call raises and leaves an unstyled paragraph at the end of the body.\<close>

lemma place_after_missing:
  "s < length (paragraphs doc) \<Longrightarrow> xml_compatible txt \<Longrightarrow> sty \<notin> set (styles doc) \<Longrightarrow>
   place_after s (add_paragraph txt sty) doc =
     Style_Missing sty
       (doc\<lparr>paragraphs := paragraphs doc @ [\<lparr>para_text = docx_text txt, para_style = None\<rparr>]\<rparr>)"
  by (simp add: place_after_def add_paragraph_def)

lemma heading_style_names:
  "string_of_nat (Suc 0) = ''1''" "string_of_nat 2 = ''2''" "string_of_nat 4 = ''4''"
  by (simp_all add: string_of_nat.simps)

lemma add_heading_levels:
  "add_heading txt (Suc 0) = add_paragraph txt ''Heading 1''"
  "add_heading txt 2 = add_paragraph txt ''Heading 2''"
  "add_heading txt 4 = add_paragraph txt ''Heading 4''"
  by (simp_all add: add_heading_def fun_eq_iff heading_style_names)

text \<open>
  One iteration of the insertion loop, for a block whose text is XML compatible, when
  the style table has \<open>Normal\<close> and the three heading styles: the block's paragraph is
  placed behind the anchor. Without \<open>List Bullet\<close> in the table a list item gets the
  style \<open>Normal\<close> and logs the warning, and the paragraph of the failed first call stays at
  the end of the body.
\<close>

lemma insert_block_styles:
  assumes s: "s < length (paragraphs doc)"
    and x: "xml_compatible (block_text c)"
    and st: "''Normal'' \<in> set (styles doc)" "''Heading 1'' \<in> set (styles doc)"
            "''Heading 2'' \<in> set (styles doc)" "''Heading 4'' \<in> set (styles doc)"
  shows "insert_block s c (doc, warnings) =
     Inr (doc\<lparr>paragraphs := take (Suc s) (paragraphs doc)
            @ \<lparr>para_text = docx_text (block_text c),
                para_style = Some (case block_type c of Heading \<Rightarrow> ''Heading 1'' | Paragraph \<Rightarrow> ''Normal''
                   | Heading_2 \<Rightarrow> ''Heading 2'' | Heading_4 \<Rightarrow> ''Heading 4''
                   | List_Item \<Rightarrow> if ''List Bullet'' \<in> set (styles doc) then ''List Bullet'' else ''Normal'')\<rparr>
            # drop (Suc s) (paragraphs doc)
            @ (if block_type c = List_Item \<and> ''List Bullet'' \<notin> set (styles doc)
               then [\<lparr>para_text = docx_text (block_text c), para_style = None\<rparr>] else [])\<rparr>,
          warnings @ (if block_type c = List_Item \<and> ''List Bullet'' \<notin> set (styles doc)
                      then [list_bullet_warning] else []))"
proof (cases "block_type c = List_Item \<and> ''List Bullet'' \<notin> set (styles doc)")
  case True
  let ?d1 = "doc\<lparr>paragraphs := paragraphs doc @ [\<lparr>para_text = docx_text (block_text c), para_style = None\<rparr>]\<rparr>"
  have 1: "place_after s (add_paragraph (block_text c) ''List Bullet'') doc =
      Style_Missing ''List Bullet'' ?d1"
    using s x True by (intro place_after_missing) simp_all
  have 2: "place_after s (add_paragraph (block_text c) ''Normal'') ?d1 =
      Added (?d1\<lparr>paragraphs := take (Suc s) (paragraphs ?d1)
            @ \<lparr>para_text = docx_text (block_text c), para_style = Some ''Normal''\<rparr>
            # drop (Suc s) (paragraphs ?d1)\<rparr>)"
    using s x st(1) by (intro place_after_styled) simp_all
  show ?thesis using True s by (simp add: 1 2 uncaught_def)
next
  case False
  then show ?thesis
    by (cases "block_type c")
       (simp_all add: add_heading_levels place_after_styled uncaught_def assms)
qed

text \<open>
  The whole loop: every inserted paragraph lands right behind the anchor, so the loop
  over \<open>cs\<close> leaves the paragraphs of \<open>rev cs\<close> there.
\<close>

lemma insert_blocks_styles:
  "s < length (paragraphs doc) \<Longrightarrow> \<forall>c \<in> set cs. xml_compatible (block_text c) \<Longrightarrow>
   ''Normal'' \<in> set (styles doc) \<Longrightarrow> ''Heading 1'' \<in> set (styles doc) \<Longrightarrow>
   ''Heading 2'' \<in> set (styles doc) \<Longrightarrow> ''Heading 4'' \<in> set (styles doc) \<Longrightarrow>
   insert_blocks s cs (doc, warnings) =
     Inr (doc\<lparr>paragraphs := take (Suc s) (paragraphs doc)
            @ map (\<lambda>c. \<lparr>para_text = docx_text (block_text c),
                para_style = Some (case block_type c of Heading \<Rightarrow> ''Heading 1'' | Paragraph \<Rightarrow> ''Normal''
                   | Heading_2 \<Rightarrow> ''Heading 2'' | Heading_4 \<Rightarrow> ''Heading 4''
                   | List_Item \<Rightarrow> if ''List Bullet'' \<in> set (styles doc) then ''List Bullet'' else ''Normal'')\<rparr>)
                (rev cs)
            @ drop (Suc s) (paragraphs doc)
            @ (if ''List Bullet'' \<in> set (styles doc) then []
               else map (\<lambda>c. \<lparr>para_text = docx_text (block_text c), para_style = None\<rparr>)
                      (filter (\<lambda>c. block_type c = List_Item) cs))\<rparr>,
          warnings @ (if ''List Bullet'' \<in> set (styles doc) then []
                      else map (\<lambda>c. list_bullet_warning) (filter (\<lambda>c. block_type c = List_Item) cs)))"
proof (induction cs arbitrary: doc warnings)
  case Nil
  then show ?case by simp
next
  case (Cons c cs)
  let ?R = "\<lambda>c. \<lparr>para_text = docx_text (block_text c),
                para_style = Some (case block_type c of Heading \<Rightarrow> ''Heading 1'' | Paragraph \<Rightarrow> ''Normal''
                   | Heading_2 \<Rightarrow> ''Heading 2'' | Heading_4 \<Rightarrow> ''Heading 4''
                   | List_Item \<Rightarrow> if ''List Bullet'' \<in> set (styles doc) then ''List Bullet'' else ''Normal'')\<rparr>"
  let ?O = "if block_type c = List_Item \<and> ''List Bullet'' \<notin> set (styles doc)
            then [\<lparr>para_text = docx_text (block_text c), para_style = None\<rparr>] else []"
  let ?ps = "paragraphs doc"
  let ?d1 = "doc\<lparr>paragraphs := take (Suc s) ?ps @ ?R c # drop (Suc s) ?ps @ ?O\<rparr>"
  let ?w1 = "warnings @ (if block_type c = List_Item \<and> ''List Bullet'' \<notin> set (styles doc)
                         then [list_bullet_warning] else [])"
  have xc: "xml_compatible (block_text c)" and xcs: "\<forall>c \<in> set cs. xml_compatible (block_text c)"
    using Cons.prems(2) by simp_all
  have step: "insert_block s c (doc, warnings) = Inr (?d1, ?w1)"
    using Cons.prems(1) xc Cons.prems(3-) by (rule insert_block_styles)
  have len: "s < length (paragraphs ?d1)" using Cons.prems(1) by simp
  have tk: "take (Suc s) (paragraphs ?d1) = take (Suc s) ?ps" using Cons.prems(1) by simp
  have dr: "drop (Suc s) (paragraphs ?d1) = ?R c # drop (Suc s) ?ps @ ?O"
    using Cons.prems(1) by (simp add: min_def)
  have sty: "styles ?d1 = styles doc" by simp
  have "insert_blocks s cs (?d1, ?w1) =
     Inr (?d1\<lparr>paragraphs := take (Suc s) (paragraphs ?d1) @ map ?R (rev cs)
            @ drop (Suc s) (paragraphs ?d1)
            @ (if ''List Bullet'' \<in> set (styles doc) then []
               else map (\<lambda>c. \<lparr>para_text = docx_text (block_text c), para_style = None\<rparr>)
                      (filter (\<lambda>c. block_type c = List_Item) cs))\<rparr>,
          ?w1 @ (if ''List Bullet'' \<in> set (styles doc) then []
                 else map (\<lambda>c. list_bullet_warning) (filter (\<lambda>c. block_type c = List_Item) cs)))"
    using Cons.IH[of ?d1 ?w1] len xcs Cons.prems(3-) unfolding sty by simp
  then show ?case
    unfolding tk dr by (simp add: step del: insert_block.simps)
qed

text \<open>
  The search loop: when it finds both placeholders, the start index is below the end
  index and the end index is an index of the list.
\<close>

lemma find_placeholders_bounds:
  "find_placeholders ps i sp = (Some s, Some e) \<Longrightarrow> (\<And>s0. sp = Some s0 \<Longrightarrow> s0 < i) \<Longrightarrow>
   s < e \<and> i \<le> e \<and> e < i + length ps"
proof (induction ps arbitrary: i sp)
  case Nil
  then show ?case by simp
next
  case (Cons p ps)
  show ?case
  proof (cases "str_contains ''START_CONTENT'' (para_text p)")
    case True
    with Cons.prems have "find_placeholders ps (Suc i) (Some i) = (Some s, Some e)" by simp
    from Cons.IH[OF this] show ?thesis by auto
  next
    case False
    show ?thesis
    proof (cases "str_contains ''END_CONTENT'' (para_text p)")
      case True
      with False Cons.prems show ?thesis by auto
    next
      case F: False
      with False Cons.prems have "find_placeholders ps (Suc i) sp = (Some s, Some e)" by simp
      from Cons.IH[OF this] Cons.prems(2) show ?thesis by (auto simp: less_Suc_eq)
    qed
  qed
qed

lemma find_placeholders_no_start:
  "\<forall>p \<in> set ps. \<not> str_contains ''START_CONTENT'' (para_text p) \<Longrightarrow>
   fst (find_placeholders ps i sp) = sp"
  by (induction ps arbitrary: i) auto

lemma find_placeholders_no_end:
  "\<forall>p \<in> set ps. \<not> str_contains ''END_CONTENT'' (para_text p) \<Longrightarrow>
   snd (find_placeholders ps i sp) = None"
  by (induction ps arbitrary: i sp) auto

lemma range_down_Suc:
  "range_down (Suc e) s = (if s < e then e # range_down e s else [])"
  by (simp add: range_down_def)

text \<open>The removal loop takes out exactly the paragraphs strictly between the two indices.\<close>

lemma remove_all_range:
  "s < e \<Longrightarrow> e \<le> length (paragraphs doc) \<Longrightarrow>
   remove_all (range_down e s) doc =
     Inr (doc\<lparr>paragraphs := take (Suc s) (paragraphs doc) @ drop e (paragraphs doc)\<rparr>)"
proof (induction e arbitrary: doc)
  case 0
  then show ?case by simp
next
  case (Suc e)
  show ?case
  proof (cases "s < e")
    case False
    with Suc.prems have "s = e" by simp
    then show ?thesis by (simp add: range_down_Suc)
  next
    case True
    let ?d1 = "doc\<lparr>paragraphs := take e (paragraphs doc) @ drop (Suc e) (paragraphs doc)\<rparr>"
    have r: "remove_paragraph e doc = Inr ?d1" using Suc.prems by (simp add: remove_paragraph_def)
    have l: "e \<le> length (paragraphs ?d1)" using Suc.prems by simp
    have "remove_all (range_down e s) ?d1 =
      Inr (?d1\<lparr>paragraphs := take (Suc s) (paragraphs ?d1) @ drop e (paragraphs ?d1)\<rparr>)"
      using True l by (rule Suc.IH)
    moreover have "take (Suc s) (paragraphs ?d1) = take (Suc s) (paragraphs doc)"
      using True Suc.prems by (simp add: min_def)
    moreover have "drop e (paragraphs ?d1) = drop (Suc e) (paragraphs doc)"
      using Suc.prems by (simp add: min_def)
    ultimately show ?thesis using True by (simp add: range_down_Suc r)
  qed
qed

text \<open>
  The result of the whole function, for every document in which the search loop finds
  the placeholders at \<open>s\<close> and \<open>e\<close> and whose style table has \<open>Normal\<close> and the three
  heading styles, and for every content whose texts are XML compatible. The paragraphs
  between the placeholders are replaced by one paragraph per block, in forward order.
  Then the text of paragraph \<open>s\<close> and the text of the paragraph that stands at index \<open>e\<close>
  of the new sequence are cleared; when the new sequence has no index \<open>e\<close> the function
  raises \<open>IndexError\<close>.
\<close>

theorem assembly_result:
  assumes fp: "find_placeholders (paragraphs doc) 0 None = (Some s, Some e)"
    and x: "\<forall>c \<in> set content_list. xml_compatible (block_text c)"
    and st: "''Normal'' \<in> set (styles doc)" "''Heading 1'' \<in> set (styles doc)"
            "''Heading 2'' \<in> set (styles doc)" "''Heading 4'' \<in> set (styles doc)"
  shows "insert_content_between_placeholders doc content_list =
     (let bullet_style = ''List Bullet'' \<in> set (styles doc);
          inserted = map (\<lambda>c. \<lparr>para_text = docx_text (block_text c),
                para_style = Some (case block_type c of Heading \<Rightarrow> ''Heading 1'' | Paragraph \<Rightarrow> ''Normal''
                   | Heading_2 \<Rightarrow> ''Heading 2'' | Heading_4 \<Rightarrow> ''Heading 4''
                   | List_Item \<Rightarrow> if bullet_style then ''List Bullet'' else ''Normal'')\<rparr>) content_list;
          stray = (if bullet_style then []
                   else map (\<lambda>c. \<lparr>para_text = docx_text (block_text c), para_style = None\<rparr>)
                          (filter (\<lambda>c. block_type c = List_Item) (rev content_list)));
          warnings = (if bullet_style then []
                      else map (\<lambda>c. list_bullet_warning)
                             (filter (\<lambda>c. block_type c = List_Item) (rev content_list)));
          ps = take (Suc s) (paragraphs doc) @ inserted @ drop e (paragraphs doc) @ stray
      in if e < length ps
         then Inr (doc\<lparr>paragraphs := ps[s := (ps ! s)\<lparr>para_text := []\<rparr>, e := (ps ! e)\<lparr>para_text := []\<rparr>]\<rparr>,
                   warnings)
         else Inl IndexError)"
proof -
  let ?R = "\<lambda>c. \<lparr>para_text = docx_text (block_text c),
                para_style = Some (case block_type c of Heading \<Rightarrow> ''Heading 1'' | Paragraph \<Rightarrow> ''Normal''
                   | Heading_2 \<Rightarrow> ''Heading 2'' | Heading_4 \<Rightarrow> ''Heading 4''
                   | List_Item \<Rightarrow> if ''List Bullet'' \<in> set (styles doc) then ''List Bullet'' else ''Normal'')\<rparr>"
  let ?stray = "if ''List Bullet'' \<in> set (styles doc) then []
                else map (\<lambda>c. \<lparr>para_text = docx_text (block_text c), para_style = None\<rparr>)
                       (filter (\<lambda>c. block_type c = List_Item) (rev content_list))"
  let ?warn = "if ''List Bullet'' \<in> set (styles doc) then []
               else map (\<lambda>c. list_bullet_warning) (filter (\<lambda>c. block_type c = List_Item) (rev content_list))"
  let ?ps0 = "paragraphs doc"
  have b: "s < e" "e < length ?ps0" using find_placeholders_bounds[OF fp] by simp_all
  let ?d1 = "doc\<lparr>paragraphs := take (Suc s) ?ps0 @ drop e ?ps0\<rparr>"
  have r: "remove_all (range_down e s) doc = Inr ?d1"
    using b by (intro remove_all_range) simp_all
  have l1: "s < length (paragraphs ?d1)" using b by simp
  have tk: "take (Suc s) (paragraphs ?d1) = take (Suc s) ?ps0" using b by simp
  have dr: "drop (Suc s) (paragraphs ?d1) = drop e ?ps0" using b by (simp add: min_def)
  have xr: "\<forall>c \<in> set (rev content_list). xml_compatible (block_text c)" using x by simp
  let ?ps = "take (Suc s) ?ps0 @ map ?R content_list @ drop e ?ps0 @ ?stray"
  have "insert_blocks s (rev content_list) (?d1, []) =
     Inr (?d1\<lparr>paragraphs := take (Suc s) (paragraphs ?d1) @ map ?R (rev (rev content_list))
            @ drop (Suc s) (paragraphs ?d1) @ ?stray\<rparr>, [] @ ?warn)"
    using insert_blocks_styles[of s ?d1 "rev content_list" "[]"] l1 xr st by simp
  then have i: "insert_blocks s (rev content_list) (?d1, []) = Inr (doc\<lparr>paragraphs := ?ps\<rparr>, ?warn)"
    unfolding tk dr by simp
  have ls: "s < length ?ps" using b by simp
  have t1: "set_text s [] (doc\<lparr>paragraphs := ?ps\<rparr>) =
      Inr (doc\<lparr>paragraphs := ?ps[s := (?ps ! s)\<lparr>para_text := []\<rparr>]\<rparr>)"
    using ls by (simp add: set_text_def)
  have ne: "(?ps[s := (?ps ! s)\<lparr>para_text := []\<rparr>]) ! e = ?ps ! e"
    using b by simp
  have t2: "set_text e [] (doc\<lparr>paragraphs := ?ps[s := (?ps ! s)\<lparr>para_text := []\<rparr>]\<rparr>) =
      (if e < length ?ps
       then Inr (doc\<lparr>paragraphs := ?ps[s := (?ps ! s)\<lparr>para_text := []\<rparr>, e := (?ps ! e)\<lparr>para_text := []\<rparr>]\<rparr>)
       else Inl IndexError)"
    unfolding set_text_def using ne by simp
  show ?thesis
    unfolding insert_content_between_placeholders_def Let_def
    by (simp add: fp r i t1 t2 del: insert_blocks.simps)
qed

lemmas assembly_defs =
  insert_content_between_placeholders_def range_down_def remove_paragraph_def
  place_after_def add_heading_def add_paragraph_def addnext_def set_text_def uncaught_def
  xml_char_ch_def docx_text_def heading_style_names example_template_def

lemma find_example:
  "find_placeholders (paragraphs example_template) 0 None = (Some 1, Some 3)"
  by (simp add: example_template_def)

theorem assembly_result_witness:
  "find_placeholders (paragraphs example_template) 0 None = (Some 1, Some 3) \<and>
   xml_compatible ''S'' \<and>
   ''Normal'' \<in> set (styles example_template) \<and> ''Heading 1'' \<in> set (styles example_template) \<and>
   ''Heading 2'' \<in> set (styles example_template) \<and> ''Heading 4'' \<in> set (styles example_template) \<and>
   insert_content_between_placeholders example_template
     [\<lparr>block_type = Heading_2, block_text = ''S''\<rparr>] =
   Inr (\<lparr>paragraphs =
           [\<lparr>para_text = ''Intro'', para_style = Some ''Normal''\<rparr>,
            \<lparr>para_text = [], para_style = Some ''Normal''\<rparr>,
            \<lparr>para_text = ''S'', para_style = Some ''Heading 2''\<rparr>,
            \<lparr>para_text = [], para_style = Some ''Normal''\<rparr>,
            \<lparr>para_text = ''Footer'', para_style = Some ''Normal''\<rparr>],
         styles = [''Normal'', ''Heading 1'', ''Heading 2'', ''Heading 4'']\<rparr>, [])"
proof -
  have h: "''Normal'' \<in> set (styles example_template)" "''Heading 1'' \<in> set (styles example_template)"
    "''Heading 2'' \<in> set (styles example_template)" "''Heading 4'' \<in> set (styles example_template)"
    by (simp_all add: example_template_def)
  have x: "\<forall>c \<in> set [\<lparr>block_type = Heading_2, block_text = ''S''\<rparr>]. xml_compatible (block_text c)"
    by (simp add: xml_char_ch_def)
  show ?thesis
    using h find_example assembly_result [OF find_example x h]
    by (simp add: example_template_def Let_def xml_char_ch_def docx_text_def)
qed

text \<open>
  A template in which no paragraph contains the start marker, or none contains the end
  marker, makes the assembly fail with the exception of the missing placeholders.
\<close>

theorem missing_placeholder_fails:
  "(\<forall>p \<in> set (paragraphs doc). \<not> str_contains ''START_CONTENT'' (para_text p)) \<or>
   (\<forall>p \<in> set (paragraphs doc). \<not> str_contains ''END_CONTENT'' (para_text p)) \<Longrightarrow>
   insert_content_between_placeholders doc content_list =
     Inl (Exception ''Could not find both placeholders'')"
proof (erule disjE)
  assume "\<forall>p \<in> set (paragraphs doc). \<not> str_contains ''START_CONTENT'' (para_text p)"
  then have "fst (find_placeholders (paragraphs doc) 0 None) = None"
    by (rule find_placeholders_no_start)
  then show ?thesis
    by (cases "find_placeholders (paragraphs doc) 0 None")
       (simp add: insert_content_between_placeholders_def)
next
  assume "\<forall>p \<in> set (paragraphs doc). \<not> str_contains ''END_CONTENT'' (para_text p)"
  then have "snd (find_placeholders (paragraphs doc) 0 None) = None"
    by (rule find_placeholders_no_end)
  then show ?thesis
    by (cases "find_placeholders (paragraphs doc) 0 None")
       (auto simp: insert_content_between_placeholders_def split: option.splits)
qed

theorem missing_placeholder_fails_witness:
  "map para_text (paragraphs (example_template\<lparr>paragraphs := take 3 (paragraphs example_template)\<rparr>)) =
     [''Intro'', ''START_CONTENT'', ''OLD''] \<and>
   insert_content_between_placeholders
     (example_template\<lparr>paragraphs := take 3 (paragraphs example_template)\<rparr>)
     [\<lparr>block_type = Heading, block_text = ''T''\<rparr>] =
     Inl (Exception ''Could not find both placeholders'')"
proof -
  have h: "\<forall>p \<in> set (paragraphs (example_template\<lparr>paragraphs := take 3 (paragraphs example_template)\<rparr>)).
      \<not> str_contains ''END_CONTENT'' (para_text p)"
    by (simp add: example_template_def)
  show ?thesis
    using missing_placeholder_fails [OF disjI2, OF h, of "[\<lparr>block_type = Heading, block_text = ''T''\<rparr>]"]
    by (simp add: example_template_def)
qed

text \<open>
  C1. The scenario of the claim, run on the code: template
  \<open>[Intro, START_CONTENT, OLD, END_CONTENT, Footer]\<close> and content
  \<open>[Heading T, Paragraph P1]\<close>. The old paragraph is removed and the blocks are inserted
  in forward order, but the last statement clears the paragraph that stands at the old
  index of the end placeholder: the text of the inserted paragraph \<open>P1\<close> is lost and the
  end placeholder keeps its marker text.
\<close>

theorem scenario_clears_inserted_paragraph:
  "insert_content_between_placeholders example_template
     [\<lparr>block_type = Heading, block_text = ''T''\<rparr>, \<lparr>block_type = Paragraph, block_text = ''P1''\<rparr>] =
   Inr (\<lparr>paragraphs =
           [\<lparr>para_text = ''Intro'', para_style = Some ''Normal''\<rparr>,
            \<lparr>para_text = [], para_style = Some ''Normal''\<rparr>,
            \<lparr>para_text = ''T'', para_style = Some ''Heading 1''\<rparr>,
            \<lparr>para_text = [], para_style = Some ''Normal''\<rparr>,
            \<lparr>para_text = ''END_CONTENT'', para_style = Some ''Normal''\<rparr>,
            \<lparr>para_text = ''Footer'', para_style = Some ''Normal''\<rparr>],
         styles = [''Normal'', ''Heading 1'', ''Heading 2'', ''Heading 4'']\<rparr>, [])"
  by (simp add: assembly_defs)

text \<open>
  C2. Two runs on the code. The template with one old paragraph and empty content:
  the old paragraph is removed, and the last statement clears the paragraph at the old
  index of the end placeholder, which now is the footer, a paragraph outside the region;
  the end placeholder keeps its marker text. The template with three old paragraphs and
  the content of one article, a title and a paragraph: again the footer is cleared and
  the end placeholder keeps its text.
\<close>

theorem empty_content_clears_footer:
  "insert_content_between_placeholders example_template [] =
   Inr (\<lparr>paragraphs =
           [\<lparr>para_text = ''Intro'', para_style = Some ''Normal''\<rparr>,
            \<lparr>para_text = [], para_style = Some ''Normal''\<rparr>,
            \<lparr>para_text = ''END_CONTENT'', para_style = Some ''Normal''\<rparr>,
            \<lparr>para_text = [], para_style = Some ''Normal''\<rparr>],
         styles = [''Normal'', ''Heading 1'', ''Heading 2'', ''Heading 4'']\<rparr>, []) \<and>
   insert_content_between_placeholders long_template
     [\<lparr>block_type = Heading, block_text = ''T''\<rparr>, \<lparr>block_type = Paragraph, block_text = ''P1''\<rparr>] =
   Inr (\<lparr>paragraphs =
           [\<lparr>para_text = ''Intro'', para_style = Some ''Normal''\<rparr>,
            \<lparr>para_text = [], para_style = Some ''Normal''\<rparr>,
            \<lparr>para_text = ''T'', para_style = Some ''Heading 1''\<rparr>,
            \<lparr>para_text = ''P1'', para_style = Some ''Normal''\<rparr>,
            \<lparr>para_text = ''END_CONTENT'', para_style = Some ''Normal''\<rparr>,
            \<lparr>para_text = [], para_style = Some ''Normal''\<rparr>],
         styles = [''Normal'', ''Heading 1'', ''Heading 2'', ''Heading 4'']\<rparr>, [])"
  by (simp add: assembly_defs long_template_def)

text \<open>
  C8. A list item assembled against a template without \<open>List Bullet\<close>, run on the code:
  template \<open>[Intro, START_CONTENT, OLD, END_CONTENT, Footer]\<close> and the content of one
  article, a title and one list item. The fallback places a \<open>Normal\<close> paragraph with the
  item's text behind the title and logs the warning; but the last statement clears the
  paragraph at the old index of the end placeholder, which is that paragraph: the
  \<open>Normal\<close> element ends with an empty text and the end placeholder keeps its marker. The
  item's text survives only in the unstyled paragraph that the failed first call left
  behind the footer.
\<close>

theorem fallback_paragraph_blanked:
  "insert_content_between_placeholders example_template
     [\<lparr>block_type = Heading, block_text = ''T''\<rparr>,
      \<lparr>block_type = List_Item, block_text = bullet @ ''item''\<rparr>] =
   Inr (\<lparr>paragraphs =
           [\<lparr>para_text = ''Intro'', para_style = Some ''Normal''\<rparr>,
            \<lparr>para_text = [], para_style = Some ''Normal''\<rparr>,
            \<lparr>para_text = ''T'', para_style = Some ''Heading 1''\<rparr>,
            \<lparr>para_text = [], para_style = Some ''Normal''\<rparr>,
            \<lparr>para_text = ''END_CONTENT'', para_style = Some ''Normal''\<rparr>,
            \<lparr>para_text = ''Footer'', para_style = Some ''Normal''\<rparr>,
            \<lparr>para_text = bullet @ ''item'', para_style = None\<rparr>],
         styles = [''Normal'', ''Heading 1'', ''Heading 2'', ''Heading 4'']\<rparr>,
        [list_bullet_warning])"
  by (simp add: assembly_defs bullet_def)

section \<open>The run\<close>

lemma fetch_example:
  "fetch_article_urls example_web ''https://www.gktoday.in/current-affairs/'' 3 =
     [''https://www.gktoday.in/a1/'', ''https://www.gktoday.in/a2/'']"
  by (simp add: fetch_article_urls_def upto.simps page_url_examples page_defs)

lemma fetch_broken:
  "fetch_article_urls broken_article_web ''https://www.gktoday.in/current-affairs/'' 3 =
     [''https://www.gktoday.in/a1/'', ''https://www.gktoday.in/a2/'']"
  by (simp add: fetch_article_urls_def upto.simps page_url_examples page_defs)

lemma scrape_broken:
  "scrape_and_get_content broken_article_web ''https://www.gktoday.in/a1/'' = []"
  by (simp add: page_defs)

lemma filter_example:
  "check_and_insert_urls [''https://www.gktoday.in/a1/'', ''https://www.gktoday.in/a2/''] empty_store =
     ([''https://www.gktoday.in/a1/'', ''https://www.gktoday.in/a2/''],
      \<lparr>docs = [''https://www.gktoday.in/a1/'', ''https://www.gktoday.in/a2/''], faults = []\<rparr>)"
  by (simp add: check_and_insert_urls_def find_one_def insert_one_def empty_store_def)

lemma three_timeouts:
  "send_pdf_to_telegram (\<lambda>i. TimedOut) =
     (Inr (), [Send_Document TimedOut, Sleep 5, Send_Document TimedOut, Sleep 5,
               Send_Document TimedOut, Sleep 5])"
  by (simp add: send_pdf_to_telegram_def upt_rec)

lemma assemble_example:
  "insert_content_between_placeholders example_template
      [\<lparr>block_type = Heading, block_text = ''T1''\<rparr>, \<lparr>block_type = Paragraph, block_text = ''P1''\<rparr>,
       \<lparr>block_type = Heading, block_text = ''T2''\<rparr>, \<lparr>block_type = Paragraph, block_text = ''P2''\<rparr>] =
    Inr (\<lparr>paragraphs =
           [\<lparr>para_text = ''Intro'', para_style = Some ''Normal''\<rparr>,
            \<lparr>para_text = [], para_style = Some ''Normal''\<rparr>,
            \<lparr>para_text = ''T1'', para_style = Some ''Heading 1''\<rparr>,
            \<lparr>para_text = [], para_style = Some ''Normal''\<rparr>,
            \<lparr>para_text = ''T2'', para_style = Some ''Heading 1''\<rparr>,
            \<lparr>para_text = ''P2'', para_style = Some ''Normal''\<rparr>,
            \<lparr>para_text = ''END_CONTENT'', para_style = Some ''Normal''\<rparr>,
            \<lparr>para_text = ''Footer'', para_style = Some ''Normal''\<rparr>],
         styles = [''Normal'', ''Heading 1'', ''Heading 2'', ''Heading 4'']\<rparr>, [])"
  by (simp add: assembly_defs)

text \<open>
  C3. A bot whose every call times out, run on the code: \<open>send_document\<close> is called three
  times, each timeout is followed by a sleep of five seconds, then the loop is used up
  and \<open>send_pdf_to_telegram\<close> returns without an exception. The run finishes normally
  although nothing was delivered. A bot that would succeed on its fourth call is treated
  the same: there is no fourth call.
\<close>

theorem timeouts_exhausted_run_finishes:
  "send_pdf_to_telegram (\<lambda>i. TimedOut) =
     (Inr (), [Send_Document TimedOut, Sleep 5, Send_Document TimedOut, Sleep 5,
               Send_Document TimedOut, Sleep 5]) \<and>
   send_pdf_to_telegram (\<lambda>i. if i < 3 then TimedOut else Sent) =
     (Inr (), [Send_Document TimedOut, Sleep 5, Send_Document TimedOut, Sleep 5,
               Send_Document TimedOut, Sleep 5]) \<and>
   (\<exists>assembled titles.
      fst (script (example_world\<lparr>telegram_bot := (\<lambda>i. TimedOut)\<rparr>) empty_store) =
        Inr (Finished assembled titles
               [Send_Document TimedOut, Sleep 5, Send_Document TimedOut, Sleep 5,
                Send_Document TimedOut, Sleep 5]))"
proof -
  have 1: "send_pdf_to_telegram (\<lambda>i. if i < 3 then TimedOut else Sent) =
     (Inr (), [Send_Document TimedOut, Sleep 5, Send_Document TimedOut, Sleep 5,
               Send_Document TimedOut, Sleep 5])"
    by (simp add: send_pdf_to_telegram_def upt_rec)
  have 2: "fst (script (example_world\<lparr>telegram_bot := (\<lambda>i. TimedOut)\<rparr>) empty_store) =
        Inr (Finished
          \<lparr>paragraphs =
           [\<lparr>para_text = ''Intro'', para_style = Some ''Normal''\<rparr>,
            \<lparr>para_text = [], para_style = Some ''Normal''\<rparr>,
            \<lparr>para_text = ''T1'', para_style = Some ''Heading 1''\<rparr>,
            \<lparr>para_text = [], para_style = Some ''Normal''\<rparr>,
            \<lparr>para_text = ''T2'', para_style = Some ''Heading 1''\<rparr>,
            \<lparr>para_text = ''P2'', para_style = Some ''Normal''\<rparr>,
            \<lparr>para_text = ''END_CONTENT'', para_style = Some ''Normal''\<rparr>,
            \<lparr>para_text = ''Footer'', para_style = Some ''Normal''\<rparr>],
         styles = [''Normal'', ''Heading 1'', ''Heading 2'', ''Heading 4'']\<rparr>
          [''T1'', ''T2'']
               [Send_Document TimedOut, Sleep 5, Send_Document TimedOut, Sleep 5,
                Send_Document TimedOut, Sleep 5])"
    by (simp add: script_def main_def env_set_def fetch_example filter_example three_timeouts
        scrape_a1 scrape_a2 download_template_def example_world_def example_env_def
        assemble_example)
  show ?thesis
    using three_timeouts 1 2 by blast
qed

text \<open>
  C4. The first of two new articles answers with a page that has no main content
  container, run on the code: the extractor returns the empty list, \<open>content_list[0]\<close>
  raises \<open>IndexError\<close> in the loop of \<open>main\<close>, and the run ends with that error. The second
  article is not extracted; both URLs are in the store.
\<close>

theorem failed_extraction_aborts_run:
  "scrape_and_get_content broken_article_web ''https://www.gktoday.in/a1/'' = [] \<and>
   script (example_world\<lparr>requests_get := broken_article_web\<rparr>) empty_store =
     (Inl IndexError,
      \<lparr>docs = [''https://www.gktoday.in/a1/'', ''https://www.gktoday.in/a2/''], faults = []\<rparr>)"
  by (simp add: script_def main_def env_set_def fetch_broken filter_example scrape_broken
      download_template_def example_world_def example_env_def)




section \<open>Further properties\<close>

lemma find_one_no_fault:
  "faults c = [] \<Longrightarrow> find_one url c = (Inr (url \<in> set (docs c)), c)"
  by (cases c) (simp add: find_one_def)

lemma insert_one_no_fault:
  "faults c = [] \<Longrightarrow> insert_one url c = (Inr (), c\<lparr>docs := docs c @ [url]\<rparr>)"
  by (cases c) (simp add: insert_one_def)

text \<open>When no call of the store fails, the filter leaves every candidate that is not a quiz URL in the store.\<close>

lemma check_urls_records_all:
  "faults c = [] \<Longrightarrow>
   faults (snd (check_urls urls new_urls c)) = [] \<and>
   set (docs c) \<subseteq> set (docs (snd (check_urls urls new_urls c))) \<and>
   (\<forall>u \<in> set urls. str_contains ''daily-current-affairs-quiz'' u
                      \<or> u \<in> set (docs (snd (check_urls urls new_urls c))))"
proof (induction urls arbitrary: new_urls c)
  case Nil
  then show ?case by simp
next
  case (Cons url urls)
  show ?case
  proof (cases "str_contains ''daily-current-affairs-quiz'' url")
    case True
    with Cons.IH[OF Cons.prems, of new_urls] show ?thesis by simp
  next
    case False
    show ?thesis
    proof (cases "url \<in> set (docs c)")
      case True
      with False Cons.IH[OF Cons.prems, of new_urls] Cons.prems show ?thesis
        by (auto simp: find_one_no_fault)
    next
      case F: False
      let ?c2 = "c\<lparr>docs := docs c @ [url]\<rparr>"
      have f2: "faults ?c2 = []" using Cons.prems by simp
      from Cons.IH[OF f2, of "new_urls @ [url]"] False F Cons.prems show ?thesis
        by (auto simp: find_one_no_fault insert_one_no_fault)
    qed
  qed
qed

lemma check_urls_all_known:
  "faults c = [] \<Longrightarrow>
   \<forall>u \<in> set urls. str_contains ''daily-current-affairs-quiz'' u \<or> u \<in> set (docs c) \<Longrightarrow>
   check_urls urls new_urls c = (new_urls, c)"
  by (induction urls) (auto simp: find_one_no_fault)

text \<open>
  Running the filter again on the same candidates, against the store as the first run
  left it, selects nothing, when no call of the store fails.
\<close>

theorem filter_rerun_selects_nothing:
  "faults c = [] \<Longrightarrow>
   fst (check_and_insert_urls urls (snd (check_and_insert_urls urls c))) = []"
  using check_urls_records_all[of c urls "[]"]
  by (simp add: check_and_insert_urls_def check_urls_all_known)

theorem filter_rerun_selects_nothing_witness:
  "faults empty_store = [] \<and>
   fst (check_and_insert_urls [''https://a/'', ''https://b/'', ''https://a/''] empty_store) =
     [''https://a/'', ''https://b/''] \<and>
   fst (check_and_insert_urls [''https://a/'', ''https://b/'', ''https://a/'']
          (snd (check_and_insert_urls [''https://a/'', ''https://b/'', ''https://a/''] empty_store))) = []"
proof -
  have h: "faults empty_store = []" by (simp add: empty_store_def)
  have "fst (check_and_insert_urls [''https://a/'', ''https://b/'', ''https://a/''] empty_store) =
     [''https://a/'', ''https://b/'']"
    by (simp add: check_and_insert_urls_def find_one_def insert_one_def empty_store_def)
  then show ?thesis
    using h filter_rerun_selects_nothing [OF h, of "[''https://a/'', ''https://b/'', ''https://a/'']"]
    by simp
qed

text \<open>
  The publishing loop stops at the first call that does not time out: a success ends
  it, any other error is raised at once, and no further call is made.
\<close>

theorem first_answer_ends_publishing:
  "i < 3 \<Longrightarrow> (\<forall>j < i. send_document j = TimedOut) \<Longrightarrow> send_document i \<noteq> TimedOut \<Longrightarrow>
   send_pdf_to_telegram send_document =
     (if send_document i = Sent then Inr () else Inl TelegramError,
      concat (replicate i [Send_Document TimedOut, Sleep 5]) @ [Send_Document (send_document i)])"
proof -
  assume i: "i < 3" and before: "\<forall>j < i. send_document j = TimedOut"
    and here: "send_document i \<noteq> TimedOut"
  from i consider "i = 0" | "i = 1" | "i = 2" by linarith
  then show ?thesis
  proof cases
    case 1
    with here show ?thesis
      by (cases "send_document 0") (simp_all add: send_pdf_to_telegram_def upt_rec)
  next
    case 2
    with before have "send_document 0 = TimedOut" by simp
    with 2 here show ?thesis
      by (cases "send_document 1") (simp_all add: send_pdf_to_telegram_def upt_rec)
  next
    case 3
    with before have "send_document 0 = TimedOut" "send_document 1 = TimedOut" by simp_all
    with 3 here show ?thesis
      by (cases "send_document 2")
         (simp_all add: send_pdf_to_telegram_def upt_rec numeral_2_eq_2)
  qed
qed

theorem first_answer_ends_publishing_witness:
  "(1::nat) < 3 \<and>
   (\<lambda>k::nat. if k = 0 then TimedOut else Failed) 0 = TimedOut \<and>
   (\<lambda>k::nat. if k = 0 then TimedOut else Failed) 1 \<noteq> TimedOut \<and>
   send_pdf_to_telegram (\<lambda>k. if k = 0 then TimedOut else Failed) =
     (Inl TelegramError, [Send_Document TimedOut, Sleep 5, Send_Document Failed])"
  using first_answer_ends_publishing [of 1 "\<lambda>k. if k = 0 then TimedOut else Failed"]
  by simp

end
